theory Spec2Isabelle
  imports Main "HOL-Library.Word" "HOL-Library.Monad_Syntax" "HOL-Library.Sublist"
begin

section \<open>The transcoder of av_encode_video1.cpp\<close>

text \<open>
  The repository is one translation unit with one function, \<^verbatim>\<open>main\<close>, that drives a
  media library (demuxer, codec, scaler, muxer) through a fixed sequence of calls. The
  library is not part of the repository: everything it answers is a parameter of the
  model (the record \<open>env\<close> below), and everything \<^verbatim>\<open>main\<close> does to it is recorded, in
  program order, as a list of events. A run of the program is then a function from the
  command line and the library's answers to the list of events and the way the process
  ends.
\<close>

subsection \<open>Data\<close>

datatype AVMediaType = AVMEDIA_TYPE_VIDEO | AVMEDIA_TYPE_AUDIO | AVMEDIA_TYPE_SUBTITLE
  | AVMEDIA_TYPE_UNKNOWN

text \<open>The fields of \<^verbatim>\<open>AVCodecParameters\<close> that \<^verbatim>\<open>main\<close> reads or that are copied into
  the codec context.\<close>

record AVCodecParameters =
  codec_type :: AVMediaType
  codec_id :: nat
  width :: int
  height :: int
  bit_rate :: int

record AVCodecContext =
  ctx_codec_id :: nat
  ctx_width :: int
  ctx_height :: int
  ctx_bit_rate :: int

record AVPacket =
  stream_index :: int
  pts :: int
  dts :: int
  payload :: "nat list"

text \<open>A frame as \<^verbatim>\<open>av_frame_alloc\<close> returns it has no picture buffer.\<close>

record AVFrame =
  frame_data :: "nat list option"
  frame_width :: int
  frame_height :: int

definition av_frame_alloc_result :: AVFrame where
  "av_frame_alloc_result = \<lparr>frame_data = None, frame_width = 0, frame_height = 0\<rparr>"

text \<open>The exceptions \<^verbatim>\<open>std::stoi\<close> throws.\<close>

datatype exn = Invalid_argument | Out_of_range

text \<open>
  How the process ends: \<^verbatim>\<open>main\<close> returns a value; or an exception leaves \<^verbatim>\<open>main\<close>
  (there is no handler anywhere, so \<^verbatim>\<open>std::terminate\<close> runs); or \<^verbatim>\<open>main\<close> reads an
  element of an array at a position the array does not have. What the program does
  from there on is undefined, so the run is taken to end at that read.
\<close>

datatype outcome = Return int | Terminate exn | Undefined

text \<open>
  What the program does, in program order: a line written to a stream, or a call of the
  library with the arguments that matter. A read is recorded with what it returned: the
  status and the packet. The frame argument of \<open>Avcodec_send_frame\<close> is a pointer in
  the source; \<open>None\<close> is the null pointer, with which the library is told that the
  stream of frames has ended. \<open>Avformat_new_stream\<close> is the one call of the library
  that adds a stream to an output context; it is listed so that the number of streams
  of the output context can be read off the calls made.
\<close>

datatype event =
    Stdout string
  | Stderr string
  | Av_register_all
  | Avformat_open_input string
  | Avformat_find_stream_info
  | Avcodec_find_decoder nat
  | Avcodec_alloc_context3 nat
  | Avcodec_parameters_to_context
  | Avcodec_open2 AVCodecContext nat
  | Avformat_alloc_output_context2 string string
  | Avformat_new_stream
  | Av_find_best_stream nat
  | Av_packet_alloc
  | Av_frame_alloc
  | Sws_getContext int int int int
  | Avio_alloc_context
  | Avio_open string
  | Avformat_write_header
  | Av_read_frame int AVPacket
  | Avcodec_send_frame "AVFrame option"
  | Avcodec_receive_packet
  | Av_packet_rescale_ts AVPacket int int
  | Av_interleaved_write_frame AVPacket
  | Av_packet_unref
  | Av_write_trailer
  | Avio_context_free
  | Avio_closep
  | Av_frame_free
  | Sws_freeContext
  | Av_packet_free
  | Avcodec_free_context
  | Avcodec_parameters_destroy
  | Avformat_close_input

text \<open>
  The answers of the library. \<open>'d\<close> is the state of the demuxer and \<open>'e\<close> the state of
  the encoder session; both are opaque to the program. A call that returns a status
  returns it as the \<^verbatim>\<open>int\<close> the source compares; a call that returns a pointer
  returns whether it is non-null (\<open>avcodec_find_decoder\<close> returns the codec it found).
  \<open>av_frame_alloc\<close> is asked twice, first for \<^verbatim>\<open>input_frame\<close> (call 0), then for
  \<^verbatim>\<open>output_frame\<close> (call 1). \<open>av_find_best_stream\<close> is given the number of streams
  of the context it searches. \<open>av_packet_rescale_ts\<close> is given the packet and the two
  stream positions the source indexes with.
\<close>

record ('d, 'e) env =
  avformat_open_input :: "string \<Rightarrow> int"
  avformat_find_stream_info :: int
  streams :: "AVCodecParameters list"
  avcodec_find_decoder :: "nat \<Rightarrow> nat option"
  avcodec_alloc_context3 :: "nat \<Rightarrow> bool"
  avcodec_parameters_to_context :: "AVCodecParameters \<Rightarrow> int"
  avcodec_open2 :: "AVCodecContext \<Rightarrow> nat \<Rightarrow> int"
  avformat_alloc_output_context2 :: "string \<Rightarrow> string \<Rightarrow> int"
  oformat_nofile :: bool
  av_find_best_stream :: "nat \<Rightarrow> int"
  av_packet_alloc :: bool
  av_frame_alloc :: "nat \<Rightarrow> bool"
  sws_getContext :: "int \<Rightarrow> int \<Rightarrow> int \<Rightarrow> int \<Rightarrow> bool"
  avio_open :: "string \<Rightarrow> int"
  avformat_write_header :: int
  demuxer_init :: 'd
  av_read_frame :: "'d \<Rightarrow> int \<times> AVPacket \<times> 'd"
  encoder_init :: 'e
  avcodec_send_frame :: "'e \<Rightarrow> AVFrame option \<Rightarrow> int \<times> 'e"
  avcodec_receive_packet :: "'e \<Rightarrow> int \<times> AVPacket \<times> 'e"
  av_packet_rescale_ts :: "AVPacket \<Rightarrow> int \<Rightarrow> int \<Rightarrow> AVPacket"

subsection \<open>The bitrate argument\<close>

text \<open>
  \<^verbatim>\<open>std::stoi(str)\<close> in base 10: leading white space is skipped, a sign may follow,
  then the longest run of decimal digits is read and whatever follows is ignored. With
  no digit it throws \<^verbatim>\<open>std::invalid_argument\<close>; with a value that does not fit an
  \<^verbatim>\<open>int\<close> (32 bits) it throws \<^verbatim>\<open>std::out_of_range\<close>.
\<close>

definition isspace :: "char \<Rightarrow> bool" where
  "isspace c = (c \<in> set [CHR '' '', CHR 0x09, CHR 0x0A, CHR 0x0B, CHR 0x0C, CHR 0x0D])"

definition isdigit :: "char \<Rightarrow> bool" where
  "isdigit c = (c \<in> set ''0123456789'')"

definition digit_value :: "char \<Rightarrow> int" where
  "digit_value c = int (of_char c) - 48"

definition stoi :: "string \<Rightarrow> exn + 32 word" where
  "stoi str =
     (let s1 = dropWhile isspace str;
          negative = (case s1 of [] \<Rightarrow> False | c # _ \<Rightarrow> c = CHR ''-'');
          s2 = (case s1 of [] \<Rightarrow> [] | c # r \<Rightarrow> if c = CHR ''-'' \<or> c = CHR ''+'' then r else s1);
          ds = takeWhile isdigit s2;
          v = foldl (\<lambda>a c. 10 * a + digit_value c) 0 ds;
          n = (if negative then - v else v)
      in if ds = [] then Inl Invalid_argument
         else if n < - (2 ^ 31) \<or> 2 ^ 31 - 1 < n then Inl Out_of_range
         else Inr (word_of_int n))"

subsection \<open>Setup\<close>

text \<open>
  The loop of lines 35 to 41: the position of the first stream whose codec type is
  video, or \<open>-1\<close>. \<open>i\<close> is the position of the head of the list.
\<close>

fun find_video_stream :: "nat \<Rightarrow> AVCodecParameters list \<Rightarrow> int" where
  "find_video_stream i [] = - 1"
| "find_video_stream i (s # ss) =
     (if codec_type s = AVMEDIA_TYPE_VIDEO then int i else find_video_stream (Suc i) ss)"

text \<open>What the rest of \<^verbatim>\<open>main\<close> keeps from a setup that succeeded.\<close>

record session =
  video_stream_index :: int
  video_stream_id :: int
  output_nb_streams :: nat
  input_frame :: AVFrame
  nofile :: bool

text \<open>
  \<^verbatim>\<open>avcodec_parameters_to_context\<close> fills the context from the stream's parameters;
  line 69 then overwrites the bit rate. \<^verbatim>\<open>bitrate * 1000\<close> is a product of two
  \<^verbatim>\<open>int\<close>s, computed in 32 bits (wrapping around, as the usual targets do) and only
  then widened to the 64-bit field.
\<close>

definition parameters_to_context :: "AVCodecParameters \<Rightarrow> AVCodecContext" where
  "parameters_to_context par =
     \<lparr>ctx_codec_id = codec_id par, ctx_width = width par, ctx_height = height par,
      ctx_bit_rate = bit_rate par\<rparr>"

text \<open>
  The number of streams of the output context after the calls \<open>tr\<close>, made in this
  order: its allocation leaves it without streams, and each \<open>Avformat_new_stream\<close> adds
  one.
\<close>

fun add_stream :: "nat \<Rightarrow> event \<Rightarrow> nat" where
  "add_stream n (Avformat_alloc_output_context2 fmt file) = 0"
| "add_stream n Avformat_new_stream = Suc n"
| "add_stream n _ = n"

definition nb_streams :: "event list \<Rightarrow> nat" where
  "nb_streams tr = foldl add_stream 0 tr"

definition usage :: "string \<Rightarrow> string" where
  "usage argv0 = ''Usage: '' @ argv0 @ '' input_file output_file bitrate''"

text \<open>
  Lines 9 to 137. \<open>argv0\<close> is \<^verbatim>\<open>argv[0]\<close> and \<open>args\<close> are the arguments after it, so
  \<^verbatim>\<open>argc\<close> is \<open>1 + length args\<close>. \<open>t1\<close>, \<open>t2\<close>, ... are the events so far. The lookup
  of line 85 searches the output context as the calls before it have left it, and the
  session keeps the number of streams that context has when setup is over.
\<close>

definition main_setup :: "('d, 'e) env \<Rightarrow> string \<Rightarrow> string list \<Rightarrow> event list \<times> (outcome + session)" where
  "main_setup env argv0 args =
    (if 1 + length args \<noteq> 4 then ([Stdout (usage argv0)], Inl (Return (- 1)))
     else
      let input_file = args ! 0; output_file = args ! 1 in
      case stoi (args ! 2) of
        Inl ex \<Rightarrow> ([], Inl (Terminate ex))
      | Inr bitrate \<Rightarrow>
      let t1 = [Av_register_all, Avformat_open_input input_file] in
      if avformat_open_input env input_file < 0
      then (t1 @ [Stderr (''Failed to open input file: '' @ input_file)], Inl (Return (- 1)))
      else
      let t2 = t1 @ [Avformat_find_stream_info] in
      if avformat_find_stream_info env < 0
      then (t2 @ [Stderr ''Failed to find stream information''], Inl (Return (- 1)))
      else
      let video_stream_index = find_video_stream 0 (streams env) in
      if video_stream_index = - 1
      then (t2 @ [Stderr ''Failed to find video stream''], Inl (Return (- 1)))
      else
      let video_codecpar = streams env ! nat video_stream_index;
          t3 = t2 @ [Avcodec_find_decoder (codec_id video_codecpar)] in
      (case avcodec_find_decoder env (codec_id video_codecpar) of
        None \<Rightarrow> (t3 @ [Stderr ''Failed to find video codec''], Inl (Return (- 1)))
      | Some video_codec \<Rightarrow>
      let t4 = t3 @ [Avcodec_alloc_context3 video_codec] in
      if \<not> avcodec_alloc_context3 env video_codec
      then (t4 @ [Stderr ''Failed to allocate video encoder context''], Inl (Return (- 1)))
      else
      let t5 = t4 @ [Avcodec_parameters_to_context] in
      if avcodec_parameters_to_context env video_codecpar < 0
      then (t5 @ [Stderr ''Failed to copy codec parameters''], Inl (Return (- 1)))
      else
      let video_encoder_ctx =
            (parameters_to_context video_codecpar)\<lparr>ctx_bit_rate := sint (bitrate * 1000)\<rparr>;
          t6 = t5 @ [Avcodec_open2 video_encoder_ctx video_codec] in
      if avcodec_open2 env video_encoder_ctx video_codec < 0
      then (t6 @ [Stderr ''Failed to open video encoder''], Inl (Return (- 1)))
      else
      let t7 = t6 @ [Avformat_alloc_output_context2 ''3gpp'' output_file] in
      if avformat_alloc_output_context2 env ''3gpp'' output_file < 0
      then (t7 @ [Stderr ''Failed to create output context''], Inl (Return (- 1)))
      else
      let nb_out_streams = nb_streams t7;
          t8 = t7 @ [Av_find_best_stream nb_out_streams];
          video_stream_id = av_find_best_stream env nb_out_streams in
      if video_stream_id = - 1
      then (t8 @ [Stderr ''Failed to find video stream id''], Inl (Return (- 1)))
      else
      let t9 = t8 @ [Av_packet_alloc] in
      if \<not> av_packet_alloc env
      then (t9 @ [Stderr ''Failed to allocate encoder packet''], Inl (Return (- 1)))
      else
      let t10 = t9 @ [Av_frame_alloc] in
      if \<not> av_frame_alloc env 0
      then (t10 @ [Stderr ''Failed to allocate input frame''], Inl (Return (- 1)))
      else
      let t11 = t10 @ [Sws_getContext (width video_codecpar) (height video_codecpar)
                         (ctx_width video_encoder_ctx) (ctx_height video_encoder_ctx)] in
      if \<not> sws_getContext env (width video_codecpar) (height video_codecpar)
               (ctx_width video_encoder_ctx) (ctx_height video_encoder_ctx)
      then (t11 @ [Stderr ''Failed to create SW scaler''], Inl (Return (- 1)))
      else
      let t12 = t11 @ [Av_frame_alloc] in
      if \<not> av_frame_alloc env 1
      then (t12 @ [Stderr ''Failed to allocate output frame''], Inl (Return (- 1)))
      else
      let t13 = t12 @ (if oformat_nofile env then [Avio_alloc_context] else [Avio_open output_file]) in
      if \<not> oformat_nofile env \<and> avio_open env output_file < 0
      then (t13 @ [Stderr (''Failed to open output file: '' @ output_file)], Inl (Return (- 1)))
      else
      let t14 = t13 @ [Avformat_write_header] in
      if avformat_write_header env < 0
      then (t14 @ [Stderr ''Failed to write output header''], Inl (Return (- 1)))
      else
        (t14, Inr \<lparr>video_stream_index = video_stream_index, video_stream_id = video_stream_id,
                   output_nb_streams = nb_streams t14,
                   input_frame = av_frame_alloc_result, nofile = oformat_nofile env\<rparr>)))"

subsection \<open>The encoding loop and the flush\<close>

text \<open>
  Lines 148 and 158 read \<^verbatim>\<open>input_format_context->streams[video_stream_index]\<close> and
  \<^verbatim>\<open>output_format_context->streams[video_stream_id]\<close>. An array of \<open>n\<close> streams has the
  positions \<open>0\<close> to \<open>n - 1\<close>.
\<close>

definition stream_exists :: "int \<Rightarrow> nat \<Rightarrow> bool" where
  "stream_exists i n = (0 \<le> i \<and> i < int n)"

text \<open>
  Lines 147 to 150 and 157 to 160 are the same loop: ask the encoder for a packet;
  while it answers 0, take the two streams, rescale the packet's time stamps and hand
  it to the muxer. The loop ends at the first answer that is not 0, with the state of
  the encoder; it also ends, as \<open>Undefined\<close>, when one of the two streams is read at
  a position its context does not have. No call of the loop adds a stream, so the
  output context has the streams it had when setup was over. Nothing in the program
  bounds the number of packets the encoder hands out, so the loop is a partial
  function: \<open>None\<close> is the run that never leaves it.
\<close>

partial_function (option) receive_loop ::
  "('d, 'e) env \<Rightarrow> session \<Rightarrow> 'e \<Rightarrow> (event list \<times> (outcome + 'e)) option" where
  "receive_loop env s e =
     (case avcodec_receive_packet env e of (rc, encoder_packet, e') \<Rightarrow>
        if rc = 0 then
          if stream_exists (video_stream_index s) (length (streams env)) \<and>
             stream_exists (video_stream_id s) (output_nb_streams s)
          then
            do {
              (tr, r) \<leftarrow> receive_loop env s e';
              Some (Avcodec_receive_packet
                    # Av_packet_rescale_ts encoder_packet (video_stream_index s) (video_stream_id s)
                    # Av_interleaved_write_frame
                        (av_packet_rescale_ts env encoder_packet (video_stream_index s) (video_stream_id s))
                    # tr, r)
            }
          else Some ([Avcodec_receive_packet], Inl Undefined)
        else Some ([Avcodec_receive_packet], Inr e'))"

text \<open>
  Lines 140 to 154. The \<^verbatim>\<open>break\<close> of line 144 leaves the loop without reaching
  line 153.
\<close>

partial_function (option) main_loop ::
  "('d, 'e) env \<Rightarrow> session \<Rightarrow> 'd \<Rightarrow> 'e \<Rightarrow> (event list \<times> (outcome + 'e)) option" where
  "main_loop env s d e =
     (case av_read_frame env d of (rc, encoder_packet, d') \<Rightarrow>
        if 0 \<le> rc then
          if stream_index encoder_packet = video_stream_index s then
            (case avcodec_send_frame env e (Some (input_frame s)) of (rc_send, e1) \<Rightarrow>
               if rc_send < 0 then
                 Some ([Av_read_frame rc encoder_packet, Avcodec_send_frame (Some (input_frame s)),
                        Stderr ''Error sending a frame for encoding''], Inr e1)
               else
                 do {
                   (tr1, r1) \<leftarrow> receive_loop env s e1;
                   (case r1 of
                      Inl out \<Rightarrow>
                        Some (Av_read_frame rc encoder_packet
                              # Avcodec_send_frame (Some (input_frame s)) # tr1, Inl out)
                    | Inr e2 \<Rightarrow>
                        do {
                          (tr2, r2) \<leftarrow> main_loop env s d' e2;
                          Some (Av_read_frame rc encoder_packet
                                # Avcodec_send_frame (Some (input_frame s))
                                # tr1 @ [Av_packet_unref] @ tr2, r2)
                        })
                 })
          else
            do {
              (tr2, r2) \<leftarrow> main_loop env s d' e;
              Some (Av_read_frame rc encoder_packet # Av_packet_unref # tr2, r2)
            }
        else Some ([Av_read_frame rc encoder_packet], Inr e))"

subsection \<open>Teardown and the whole program\<close>

text \<open>Lines 162 to 185.\<close>

definition main_teardown :: "session \<Rightarrow> event list" where
  "main_teardown s =
     [Av_write_trailer,
      if nofile s then Avio_context_free else Avio_closep,
      Av_frame_free, Sws_freeContext, Av_frame_free, Av_packet_free,
      Avcodec_free_context, Avcodec_parameters_destroy, Avformat_close_input,
      Stdout ''Conversion completed successfully!'']"

definition main :: "('d, 'e) env \<Rightarrow> string \<Rightarrow> string list \<Rightarrow> (event list \<times> outcome) option" where
  "main env argv0 args =
     (case main_setup env argv0 args of
        (tr, Inl out) \<Rightarrow> Some (tr, out)
      | (tr, Inr s) \<Rightarrow>
          do {
            (tr_loop, r) \<leftarrow> main_loop env s (demuxer_init env) (encoder_init env);
            (case r of
               Inl out \<Rightarrow> Some (tr @ tr_loop, out)
             | Inr e \<Rightarrow>
                 do {
                   (tr_flush, r') \<leftarrow> receive_loop env s e;
                   (case r' of
                      Inl out \<Rightarrow> Some (tr @ tr_loop @ tr_flush, out)
                    | Inr e' \<Rightarrow> Some (tr @ tr_loop @ tr_flush @ main_teardown s, Return 0))
                 })
          })"

subsection \<open>Properties of runs\<close>

text \<open>
  \<open>follows ok prev tr\<close>: every event of \<open>tr\<close> is acceptable (\<open>ok\<close>) given the event
  right before it; \<open>prev\<close> is the event before the first one, if there is one.
\<close>

fun follows :: "(event option \<Rightarrow> event \<Rightarrow> bool) \<Rightarrow> event option \<Rightarrow> event list \<Rightarrow> bool" where
  "follows ok prev [] = True"
| "follows ok prev (x # xs) = (ok prev x \<and> follows ok (Some x) xs)"

text \<open>
  A lookup of the output video stream is acceptable when it searches a context of zero
  streams and the event right before it is the allocation of that context.
\<close>

definition lookup_ok :: "string \<Rightarrow> event option \<Rightarrow> event \<Rightarrow> bool" where
  "lookup_ok output_file prev x =
     (case x of
        Av_find_best_stream n \<Rightarrow>
          n = 0 \<and> prev = Some (Avformat_alloc_output_context2 ''3gpp'' output_file)
      | _ \<Rightarrow> True)"

text \<open>
  After a read that returned a packet of a stream other than \<open>vi\<close>, the only acceptable
  event is the release of the packet, and after the release of a packet the only
  acceptable event is the next read.
\<close>

fun is_read :: "event \<Rightarrow> bool" where
  "is_read (Av_read_frame rc p) = True"
| "is_read _ = False"

definition discard_ok :: "int \<Rightarrow> event option \<Rightarrow> event \<Rightarrow> bool" where
  "discard_ok vi prev x =
     (case prev of
        Some (Av_read_frame rc p) \<Rightarrow>
          (if 0 \<le> rc \<and> stream_index p \<noteq> vi then x = Av_packet_unref else True)
      | Some Av_packet_unref \<Rightarrow> is_read x
      | _ \<Rightarrow> True)"

text \<open>
  The resources of a run, the resource that a call hands to the program when it
  succeeds, and the resource that a call gives back. The codec parameters are those of
  the selected stream; no call of the program hands them out, line 178 gives them back.
\<close>

datatype resource = Input_handle | Encoder_context | Codec_parameters | Packet | Frame
  | Scaler | Output_handle

fun acquired_by :: "event \<Rightarrow> resource option" where
  "acquired_by (Avformat_open_input file) = Some Input_handle"
| "acquired_by (Avcodec_alloc_context3 codec) = Some Encoder_context"
| "acquired_by Av_packet_alloc = Some Packet"
| "acquired_by Av_frame_alloc = Some Frame"
| "acquired_by (Sws_getContext w h w' h') = Some Scaler"
| "acquired_by Avio_alloc_context = Some Output_handle"
| "acquired_by (Avio_open file) = Some Output_handle"
| "acquired_by _ = None"

fun released_by :: "event \<Rightarrow> resource option" where
  "released_by Avio_context_free = Some Output_handle"
| "released_by Avio_closep = Some Output_handle"
| "released_by Av_frame_free = Some Frame"
| "released_by Sws_freeContext = Some Scaler"
| "released_by Av_packet_free = Some Packet"
| "released_by Avcodec_free_context = Some Encoder_context"
| "released_by Avcodec_parameters_destroy = Some Codec_parameters"
| "released_by Avformat_close_input = Some Input_handle"
| "released_by _ = None"

text \<open>The resources handed out, and the resources given back, over the events \<open>tr\<close>, in
  order.\<close>

definition acquired :: "event list \<Rightarrow> resource list" where
  "acquired tr = List.map_filter acquired_by tr"

definition released :: "event list \<Rightarrow> resource list" where
  "released tr = List.map_filter released_by tr"

text \<open>The calls that create, open, write or finish the output.\<close>

fun touches_output :: "event \<Rightarrow> bool" where
  "touches_output (Avformat_alloc_output_context2 fmt file) = True"
| "touches_output Avformat_new_stream = True"
| "touches_output Avio_alloc_context = True"
| "touches_output (Avio_open file) = True"
| "touches_output Avformat_write_header = True"
| "touches_output (Av_interleaved_write_frame p) = True"
| "touches_output Av_write_trailer = True"
| "touches_output Avio_context_free = True"
| "touches_output Avio_closep = True"
| "touches_output _ = False"

text \<open>The calls of lines 148, 149, 158 and 159: the rescaling of a packet and its write.\<close>

fun rescales_or_writes :: "event \<Rightarrow> bool" where
  "rescales_or_writes (Av_packet_rescale_ts p i j) = True"
| "rescales_or_writes (Av_interleaved_write_frame p) = True"
| "rescales_or_writes _ = False"

text \<open>The events that can occur before the encoding loop is entered.\<close>

fun setup_call :: "event \<Rightarrow> bool" where
  "setup_call (Av_read_frame rc p) = False"
| "setup_call (Avcodec_send_frame f) = False"
| "setup_call Avcodec_receive_packet = False"
| "setup_call (Av_packet_rescale_ts p i j) = False"
| "setup_call (Av_interleaved_write_frame p) = False"
| "setup_call Av_packet_unref = False"
| "setup_call Av_write_trailer = False"
| "setup_call Avio_context_free = False"
| "setup_call Avio_closep = False"
| "setup_call Av_frame_free = False"
| "setup_call Sws_freeContext = False"
| "setup_call Av_packet_free = False"
| "setup_call Avcodec_free_context = False"
| "setup_call Avcodec_parameters_destroy = False"
| "setup_call Avformat_close_input = False"
| "setup_call _ = True"

subsection \<open>A sample library\<close>

text \<open>
  A library to run the program on. The source has an audio stream at position 0 and a
  video stream at position 1, and three packets: one of audio, two of video. The
  demuxer's state is the number of packets read so far; after the last packet it
  answers end of file (\<open>- 541478725\<close>). The encoder's state is the number of frames it
  holds and whether it was told that the frames have ended. It keeps \<open>back\<close> frames
  back: a packet is ready when it holds more than \<open>back\<close> frames, or when it holds one
  and the end was signalled; otherwise it answers \<open>- 11\<close> (try again) or end of file.
  The encoder of the sample library keeps two frames back, so with this source it hands
  out nothing before the end is signalled. The lookup in the output context answers
  \<open>- 1381258232\<close> (stream not found).
\<close>

definition sample_streams :: "AVCodecParameters list" where
  "sample_streams =
     [\<lparr>codec_type = AVMEDIA_TYPE_AUDIO, codec_id = 86018, width = 0, height = 0,
       bit_rate = 128000\<rparr>,
      \<lparr>codec_type = AVMEDIA_TYPE_VIDEO, codec_id = 27, width = 640, height = 360,
       bit_rate = 1200000\<rparr>]"

definition sample_packets :: "AVPacket list" where
  "sample_packets =
     [\<lparr>stream_index = 0, pts = 0, dts = 0, payload = [1]\<rparr>,
      \<lparr>stream_index = 1, pts = 0, dts = 0, payload = [2]\<rparr>,
      \<lparr>stream_index = 1, pts = 3600, dts = 3600, payload = [3]\<rparr>]"

definition no_packet :: AVPacket where
  "no_packet = \<lparr>stream_index = 0, pts = 0, dts = 0, payload = []\<rparr>"

definition sample_read :: "nat \<Rightarrow> int \<times> AVPacket \<times> nat" where
  "sample_read n =
     (if n < length sample_packets then (0, sample_packets ! n, Suc n)
      else (- 541478725, no_packet, n))"

definition sample_send :: "nat \<times> bool \<Rightarrow> AVFrame option \<Rightarrow> int \<times> (nat \<times> bool)" where
  "sample_send e frame =
     (case frame of None \<Rightarrow> (0, (fst e, True)) | Some f \<Rightarrow> (0, (Suc (fst e), snd e)))"

definition sample_receive :: "nat \<Rightarrow> nat \<times> bool \<Rightarrow> int \<times> AVPacket \<times> (nat \<times> bool)" where
  "sample_receive back e =
     (if back < fst e \<or> (snd e \<and> 0 < fst e)
      then (0, \<lparr>stream_index = 0, pts = 3600, dts = 3600, payload = [7]\<rparr>, (fst e - 1, snd e))
      else (if snd e then - 541478725 else - 11, no_packet, e))"

definition sample_lib :: "(nat, nat \<times> bool) env" where
  "sample_lib =
     \<lparr>avformat_open_input = (\<lambda>_. 0),
      avformat_find_stream_info = 0,
      streams = sample_streams,
      avcodec_find_decoder = (\<lambda>cid. Some cid),
      avcodec_alloc_context3 = (\<lambda>_. True),
      avcodec_parameters_to_context = (\<lambda>_. 0),
      avcodec_open2 = (\<lambda>_ _. 0),
      avformat_alloc_output_context2 = (\<lambda>_ _. 0),
      oformat_nofile = False,
      av_find_best_stream = (\<lambda>_. - 1381258232),
      av_packet_alloc = True,
      av_frame_alloc = (\<lambda>_. True),
      sws_getContext = (\<lambda>_ _ _ _. True),
      avio_open = (\<lambda>_. 0),
      avformat_write_header = 0,
      demuxer_init = 0,
      av_read_frame = sample_read,
      encoder_init = (0, False),
      avcodec_send_frame = sample_send,
      avcodec_receive_packet = sample_receive 2,
      av_packet_rescale_ts = (\<lambda>p i j. p\<lparr>pts := pts p div 90, dts := dts p div 90\<rparr>)\<rparr>"

definition sample_args :: "string list" where
  "sample_args = [''in.mp4'', ''out.3gp'', ''500'']"

text \<open>What a setup with the sample library and the sample arguments leaves.\<close>

definition sample_session :: session where
  "sample_session =
     \<lparr>video_stream_index = 1, video_stream_id = - 1381258232, output_nb_streams = 0,
      input_frame = av_frame_alloc_result, nofile = False\<rparr>"

text \<open>The sample library with an encoder that keeps one frame back: it hands out a packet
  when it is given the second frame.\<close>

definition one_back_lib :: "(nat, nat \<times> bool) env" where
  "one_back_lib = sample_lib\<lparr>avcodec_receive_packet := sample_receive 1\<rparr>"

text \<open>The sample library with an encoder that refuses every frame (\<open>- 22\<close>, invalid
  argument).\<close>

definition send_fails_lib :: "(nat, nat \<times> bool) env" where
  "send_fails_lib = sample_lib\<lparr>avcodec_send_frame := (\<lambda>e frame. (- 22, e))\<rparr>"

text \<open>The sample library with a muxer that fails to write the header (\<open>- 22\<close>).\<close>

definition header_fails_lib :: "(nat, nat \<times> bool) env" where
  "header_fails_lib = sample_lib\<lparr>avformat_write_header := - 22\<rparr>"

text \<open>The sample library with a source that has an audio stream only.\<close>

definition audio_only_lib :: "(nat, nat \<times> bool) env" where
  "audio_only_lib = sample_lib\<lparr>streams := [hd sample_streams]\<rparr>"

text \<open>The events of the sample run: setup, encoding loop, flush and teardown.\<close>

definition sample_setup_trace :: "event list" where
  "sample_setup_trace =
     [Av_register_all, Avformat_open_input ''in.mp4'', Avformat_find_stream_info,
      Avcodec_find_decoder 27, Avcodec_alloc_context3 27, Avcodec_parameters_to_context,
      Avcodec_open2
        \<lparr>ctx_codec_id = 27, ctx_width = 640, ctx_height = 360, ctx_bit_rate = 500000\<rparr> 27,
      Avformat_alloc_output_context2 ''3gpp'' ''out.3gp'', Av_find_best_stream 0,
      Av_packet_alloc, Av_frame_alloc, Sws_getContext 640 360 640 360, Av_frame_alloc,
      Avio_open ''out.3gp'', Avformat_write_header]"

definition sample_loop_trace :: "event list" where
  "sample_loop_trace =
     [Av_read_frame 0 \<lparr>stream_index = 0, pts = 0, dts = 0, payload = [1]\<rparr>,
      Av_packet_unref,
      Av_read_frame 0 \<lparr>stream_index = 1, pts = 0, dts = 0, payload = [2]\<rparr>,
      Avcodec_send_frame (Some av_frame_alloc_result),
      Avcodec_receive_packet,
      Av_packet_unref,
      Av_read_frame 0 \<lparr>stream_index = 1, pts = 3600, dts = 3600, payload = [3]\<rparr>,
      Avcodec_send_frame (Some av_frame_alloc_result),
      Avcodec_receive_packet,
      Av_packet_unref,
      Av_read_frame (- 541478725) no_packet]"

definition sample_trace :: "event list" where
  "sample_trace =
     sample_setup_trace @ sample_loop_trace @ [Avcodec_receive_packet]
     @ main_teardown sample_session"

section \<open>Lemmas\<close>

subsection \<open>Evaluation on the sample library\<close>

lemmas sample_defs = sample_lib_def sample_args_def sample_streams_def sample_packets_def
  sample_read_def sample_send_def sample_receive_def no_packet_def sample_session_def
  one_back_lib_def send_fails_lib_def header_fails_lib_def audio_only_lib_def

lemmas stoi_defs = stoi_def isspace_def isdigit_def digit_value_def

lemma stoi_500: "stoi ''500'' = Inr 500"
  by (simp add: stoi_defs)

lemma setup_sample:
  "main_setup sample_lib ''prog'' sample_args = (sample_setup_trace, Inr sample_session)"
  by (simp add: main_setup_def nb_streams_def sample_defs stoi_500 parameters_to_context_def
      Let_def sample_setup_trace_def)

lemma loop_sample:
  "main_loop sample_lib sample_session 0 (0, False) = Some (sample_loop_trace, Inr (2, False))"
  by (simp add: main_loop.simps receive_loop.simps sample_defs sample_loop_trace_def
      stream_exists_def)

lemma flush_sample:
  "receive_loop sample_lib sample_session (2, False) =
     Some ([Avcodec_receive_packet], Inr (2, False))"
  by (simp add: receive_loop.simps sample_defs)

lemma main_sample: "main sample_lib ''prog'' sample_args = Some (sample_trace, Return 0)"
proof -
  have "demuxer_init sample_lib = 0" and "encoder_init sample_lib = (0, False)"
    by (simp_all add: sample_lib_def)
  then show ?thesis
    using flush_sample
    by (simp add: main_def setup_sample loop_sample sample_trace_def)
qed

subsection \<open>Acceptable events\<close>

lemma follows_append:
  "follows ok prev (xs @ ys) =
     (follows ok prev xs \<and> follows ok (if xs = [] then prev else Some (last xs)) ys)"
  by (induction xs arbitrary: prev) auto

text \<open>In terms of positions: the event at each position is acceptable given the event at
  the position before.\<close>

lemma follows_nth:
  "follows ok prev xs =
     (\<forall>i<length xs. ok (if i = 0 then prev else Some (xs ! (i - 1))) (xs ! i))"
proof (induction xs arbitrary: prev)
  case Nil
  then show ?case by simp
next
  case (Cons x xs)
  have "(\<forall>i<Suc (length xs). ok (if i = 0 then prev else Some ((x # xs) ! (i - 1))) ((x # xs) ! i))
      = (ok prev x \<and> (\<forall>i<length xs. ok (if i = 0 then Some x else Some (xs ! (i - 1))) (xs ! i)))"
    (is "?L = (_ \<and> ?R)")
  proof
    assume l: ?L
    from l [rule_format, of 0] have "ok prev x" by simp
    moreover have ?R
    proof (intro allI impI)
      fix i assume "i < length xs"
      with l [rule_format, of "Suc i"] show
        "ok (if i = 0 then Some x else Some (xs ! (i - 1))) (xs ! i)"
        by (cases i) simp_all
    qed
    ultimately show "ok prev x \<and> ?R" ..
  next
    assume r: "ok prev x \<and> ?R"
    show ?L
    proof (intro allI impI)
      fix i assume "i < Suc (length xs)"
      with r show "ok (if i = 0 then prev else Some ((x # xs) ! (i - 1))) ((x # xs) ! i)"
        by (cases i) (auto split: if_splits simp: nth_Cons')
    qed
  qed
  with Cons.IH [of "Some x"] show ?case by simp
qed

lemma lookup_ok_lookup:
  "lookup_ok file prev (Av_find_best_stream n) =
     (n = 0 \<and> prev = Some (Avformat_alloc_output_context2 ''3gpp'' file))"
  by (simp add: lookup_ok_def)

lemma lookup_ok_other:
  "(\<forall>n. x \<noteq> Av_find_best_stream n) \<Longrightarrow> lookup_ok file prev x"
  by (cases x) (simp_all add: lookup_ok_def)

lemma discard_ok_read:
  "discard_ok vi (Some (Av_read_frame rc p)) x =
     (if 0 \<le> rc \<and> stream_index p \<noteq> vi then x = Av_packet_unref else True)"
  by (simp add: discard_ok_def)

lemma discard_ok_unref: "discard_ok vi (Some Av_packet_unref) x = is_read x"
  by (simp add: discard_ok_def)

lemma discard_ok_other:
  "(\<forall>rc p. prev \<noteq> Some (Av_read_frame rc p)) \<Longrightarrow> prev \<noteq> Some Av_packet_unref \<Longrightarrow>
     discard_ok vi prev x"
  by (auto simp: discard_ok_def split: option.splits event.splits)

subsection \<open>The product of line 69\<close>

lemma sint_times_1000:
  fixes k :: "32 word"
  assumes "- 2147483 \<le> sint k" and "sint k \<le> 2147483"
  shows "sint (k * 1000) = sint k * 1000"
proof -
  have "sint (k * 1000) = signed_take_bit 31 (sint k * sint (1000 :: 32 word))"
    by (simp add: sint_word_ariths)
  also have "sint (1000 :: 32 word) = 1000"
    by simp
  also have "signed_take_bit 31 (sint k * 1000) = sint k * 1000"
    using assms by (intro signed_take_bit_int_eq_self) auto
  finally show ?thesis .
qed

subsection \<open>Resources\<close>

lemma acquired_append: "acquired (xs @ ys) = acquired xs @ acquired ys"
  by (induction xs) (simp_all add: acquired_def split: option.splits)

lemma released_append: "released (xs @ ys) = released xs @ released ys"
  by (induction xs) (simp_all add: released_def split: option.splits)

lemma acquired_none: "list_all (\<lambda>x. acquired_by x = None) xs \<Longrightarrow> acquired xs = []"
  by (induction xs) (simp_all add: acquired_def)

lemma released_none: "list_all (\<lambda>x. released_by x = None) xs \<Longrightarrow> released xs = []"
  by (induction xs) (simp_all add: released_def)

subsection \<open>Setup\<close>

lemma setup_call_not_read: "setup_call x \<Longrightarrow> x \<noteq> Av_read_frame rc p"
  by (cases x) simp_all

lemma setup_call_not_unref: "setup_call x \<Longrightarrow> x \<noteq> Av_packet_unref"
  by (cases x) simp_all

lemma setup_call_released: "setup_call x \<Longrightarrow> released_by x = None"
  by (cases x) simp_all

lemma setup_call_not_rescale_write: "setup_call x \<Longrightarrow> \<not> rescales_or_writes x"
  by (cases x) simp_all

lemma follows_setup_calls:
  assumes "list_all setup_call xs"
    and "\<And>p x. setup_call p \<Longrightarrow> setup_call x \<Longrightarrow> ok (Some p) x"
    and "\<And>x. setup_call x \<Longrightarrow> ok None x"
  shows "follows ok None xs"
proof -
  have "list_all setup_call xs \<Longrightarrow> setup_call p \<Longrightarrow> follows ok (Some p) xs" for p xs
    by (induction xs arbitrary: p) (simp_all add: assms(2))
  with assms show ?thesis
    by (cases xs) simp_all
qed

lemma main_setup_calls: "list_all setup_call (fst (main_setup env argv0 args))"
  by (simp add: main_setup_def nb_streams_def Let_def split: sum.splits option.splits)

text \<open>A setup that succeeded: the session it leaves, with an output context of zero
  streams, the last event, and the resources it has been handed.\<close>

lemma main_setup_Inr:
  assumes "main_setup env argv0 args = (tr, Inr s)"
  shows "s = \<lparr>video_stream_index = find_video_stream 0 (streams env),
               video_stream_id = av_find_best_stream env 0,
               output_nb_streams = 0,
               input_frame = av_frame_alloc_result, nofile = oformat_nofile env\<rparr>"
    and "tr \<noteq> []" and "last tr = Avformat_write_header"
    and "acquired tr =
           [Input_handle, Encoder_context, Packet, Frame, Scaler, Frame, Output_handle]"
  using assms
  by (auto simp add: main_setup_def nb_streams_def Let_def acquired_def
      split: sum.splits option.splits if_splits)

lemma main_setup_Inl:
  assumes "main_setup env argv0 args = (tr, Inl out)"
  shows "out \<noteq> Return 0" and "out \<noteq> Undefined"
  using assms
  by (auto simp add: main_setup_def nb_streams_def Let_def
      split: sum.splits option.splits if_splits)

text \<open>The loop of lines 35 to 41 finds a position of the list, and the stream there is a
  video stream.\<close>

lemma find_video_stream_found:
  assumes "find_video_stream i ss \<noteq> - 1"
  shows "int i \<le> find_video_stream i ss \<and> find_video_stream i ss < int (i + length ss) \<and>
         codec_type (ss ! (nat (find_video_stream i ss) - i)) = AVMEDIA_TYPE_VIDEO"
  using assms
proof (induction ss arbitrary: i)
  case Nil
  then show ?case by simp
next
  case (Cons s ss)
  show ?case
  proof (cases "codec_type s = AVMEDIA_TYPE_VIDEO")
    case True
    then show ?thesis by simp
  next
    case False
    with Cons.prems have "find_video_stream (Suc i) ss \<noteq> - 1" by simp
    from Cons.IH [OF this] False show ?thesis
      by (auto simp: nth_Cons' Suc_diff_le nat_le_iff)
  qed
qed

lemma find_video_stream_none:
  "(find_video_stream i ss = - 1) = (filter (\<lambda>p. codec_type p = AVMEDIA_TYPE_VIDEO) ss = [])"
  by (induction ss arbitrary: i) auto

subsection \<open>The loops\<close>

lemmas main_loop_induct = main_loop.raw_induct [rotated 1, consumes 1, case_names step]

text \<open>With an output context of zero streams the loop of lines 147 to 150 asks the
  encoder once: a refusal ends it, and a packet makes it read a stream that is not
  there.\<close>

lemma receive_loop_once:
  assumes "output_nb_streams s = 0" and "avcodec_receive_packet env e = (rc, p, e')"
  shows "receive_loop env s e =
           Some ([Avcodec_receive_packet], if rc = 0 then Inl Undefined else Inr e')"
  using assms
  by (subst receive_loop.simps) (auto simp: stream_exists_def)

text \<open>The five ways through one round of the encoding loop, when the output context has
  zero streams: the read fails; the packet is of another stream; the encoder refuses
  the frame; the encoder takes the frame and hands out a packet; the encoder takes the
  frame and hands out nothing.\<close>

lemma main_loop_round:
  assumes "(case av_read_frame env d of (rc, encoder_packet, d') \<Rightarrow>
        if 0 \<le> rc then
          if stream_index encoder_packet = video_stream_index s then
            (case avcodec_send_frame env e (Some (input_frame s)) of (rc_send, e1) \<Rightarrow>
               if rc_send < 0 then
                 Some ([Av_read_frame rc encoder_packet, Avcodec_send_frame (Some (input_frame s)),
                        Stderr ''Error sending a frame for encoding''], Inr e1)
               else
                 do {
                   (tr1, r1) \<leftarrow> receive_loop env s e1;
                   (case r1 of
                      Inl out \<Rightarrow>
                        Some (Av_read_frame rc encoder_packet
                              # Avcodec_send_frame (Some (input_frame s)) # tr1, Inl out)
                    | Inr e2 \<Rightarrow>
                        do {
                          (tr2, r2) \<leftarrow> ml env s d' e2;
                          Some (Av_read_frame rc encoder_packet
                                # Avcodec_send_frame (Some (input_frame s))
                                # tr1 @ [Av_packet_unref] @ tr2, r2)
                        })
                 })
          else
            do {
              (tr2, r2) \<leftarrow> ml env s d' e;
              Some (Av_read_frame rc encoder_packet # Av_packet_unref # tr2, r2)
            }
        else Some ([Av_read_frame rc encoder_packet], Inr e)) = Some y"
    and "output_nb_streams s = 0"
    and "av_read_frame env d = (rc, p, d1)"
    and "avcodec_send_frame env e (Some (input_frame s)) = (rc_send, e1)"
    and "avcodec_receive_packet env e1 = (rc_recv, q, e2)"
  obtains (eof) "rc < 0" "y = ([Av_read_frame rc p], Inr e)"
  | (other) y2 where "0 \<le> rc" "stream_index p \<noteq> video_stream_index s"
      "ml env s d1 e = Some y2"
      "y = (Av_read_frame rc p # Av_packet_unref # fst y2, snd y2)"
  | (refused) "0 \<le> rc" "stream_index p = video_stream_index s" "rc_send < 0"
      "y = ([Av_read_frame rc p, Avcodec_send_frame (Some (input_frame s)),
             Stderr ''Error sending a frame for encoding''], Inr e1)"
  | (no_stream) "0 \<le> rc" "stream_index p = video_stream_index s" "0 \<le> rc_send"
      "rc_recv = 0"
      "y = ([Av_read_frame rc p, Avcodec_send_frame (Some (input_frame s)),
             Avcodec_receive_packet], Inl Undefined)"
  | (sent) y2 where "0 \<le> rc" "stream_index p = video_stream_index s" "0 \<le> rc_send"
      "rc_recv \<noteq> 0" "ml env s d1 e2 = Some y2"
      "y = (Av_read_frame rc p # Avcodec_send_frame (Some (input_frame s))
            # Avcodec_receive_packet # Av_packet_unref # fst y2, snd y2)"
proof -
  note once = receive_loop_once [OF assms(2) assms(5)]
  consider "rc < 0" | "0 \<le> rc" "stream_index p \<noteq> video_stream_index s"
    | "0 \<le> rc" "stream_index p = video_stream_index s" "rc_send < 0"
    | "0 \<le> rc" "stream_index p = video_stream_index s" "0 \<le> rc_send" "rc_recv = 0"
    | "0 \<le> rc" "stream_index p = video_stream_index s" "0 \<le> rc_send" "rc_recv \<noteq> 0"
    by linarith
  then show thesis
  proof cases
    case 1
    with assms show ?thesis by (intro eof) auto
  next
    case 2
    with assms obtain y2 where "ml env s d1 e = Some y2"
      and "y = (Av_read_frame rc p # Av_packet_unref # fst y2, snd y2)"
      by (auto split: bind_splits)
    with 2 show ?thesis by (intro other)
  next
    case 3
    with assms show ?thesis by (intro refused) auto
  next
    case 4
    with assms once show ?thesis by (intro no_stream) auto
  next
    case 5
    with assms once obtain y2 where "ml env s d1 e2 = Some y2"
      and "y = (Av_read_frame rc p # Avcodec_send_frame (Some (input_frame s))
            # Avcodec_receive_packet # Av_packet_unref # fst y2, snd y2)"
      by (auto split: bind_splits)
    with 5 show ?thesis by (intro sent)
  qed
qed

text \<open>A trace of the encoding loop starts with a read, and from there on every event is
  acceptable.\<close>

lemma main_loop_discard_ok:
  assumes "main_loop env s d e = Some y" and "output_nb_streams s = 0"
  shows "\<exists>rc p rest. fst y = Av_read_frame rc p # rest \<and>
           follows (discard_ok (video_stream_index s)) (Some (Av_read_frame rc p)) rest"
  using assms
proof (induction rule: main_loop_induct)
  case (step ml env s d e y)
  obtain rc p d1 where r: "av_read_frame env d = (rc, p, d1)"
    by (cases "av_read_frame env d") auto
  obtain rc_send e1 where sf: "avcodec_send_frame env e (Some (input_frame s)) = (rc_send, e1)"
    by (cases "avcodec_send_frame env e (Some (input_frame s))") auto
  obtain rc_recv q e2 where rp: "avcodec_receive_packet env e1 = (rc_recv, q, e2)"
    by (cases "avcodec_receive_packet env e1") auto
  from step(2) step(3) r sf rp show ?case
  proof (cases rule: main_loop_round)
    case eof
    then show ?thesis by simp
  next
    case (other y2)
    from step(1) [OF other(3) step(3)] obtain rc' p' rest
      where "fst y2 = Av_read_frame rc' p' # rest"
        and "follows (discard_ok (video_stream_index s)) (Some (Av_read_frame rc' p')) rest"
      by blast
    with other show ?thesis by (simp add: discard_ok_read discard_ok_unref)
  next
    case refused
    then show ?thesis by (simp add: discard_ok_read discard_ok_other)
  next
    case no_stream
    then show ?thesis by (simp add: discard_ok_read discard_ok_other)
  next
    case (sent y2)
    from step(1) [OF sent(5) step(3)] obtain rc' p' rest
      where "fst y2 = Av_read_frame rc' p' # rest"
        and "follows (discard_ok (video_stream_index s)) (Some (Av_read_frame rc' p')) rest"
      by blast
    with sent show ?thesis
      by (simp add: discard_ok_read discard_ok_unref discard_ok_other)
  qed
qed

text \<open>One round on a packet of another stream: the read, the release, and the rest of the
  loop from the same state of the encoder, whether or not the rest ends.\<close>

lemma main_loop_other_stream:
  assumes "av_read_frame env d = (rc, p, d')" and "0 \<le> rc"
    and "stream_index p \<noteq> video_stream_index s"
  shows "main_loop env s d e =
           map_option (\<lambda>(tr, r). (Av_read_frame rc p # Av_packet_unref # tr, r))
             (main_loop env s d' e)"
  using assms
  by (subst main_loop.simps) (auto split: bind_splits)

text \<open>The encoding loop ends with a failed read, with the report of a refused frame, or
  with the request that made the program read a stream that is not there; either way
  anything may follow.\<close>

lemma main_loop_last:
  assumes "main_loop env s d e = Some y" and "output_nb_streams s = 0"
  shows "fst y \<noteq> [] \<and> (\<forall>x. discard_ok vi (Some (last (fst y))) x)"
  using assms
proof (induction rule: main_loop_induct)
  case (step ml env s d e y)
  obtain rc p d1 where r: "av_read_frame env d = (rc, p, d1)"
    by (cases "av_read_frame env d") auto
  obtain rc_send e1 where sf: "avcodec_send_frame env e (Some (input_frame s)) = (rc_send, e1)"
    by (cases "avcodec_send_frame env e (Some (input_frame s))") auto
  obtain rc_recv q e2 where rp: "avcodec_receive_packet env e1 = (rc_recv, q, e2)"
    by (cases "avcodec_receive_packet env e1") auto
  from step(2) step(3) r sf rp show ?case
  proof (cases rule: main_loop_round)
    case eof
    then show ?thesis by (simp add: discard_ok_read)
  next
    case (other y2)
    with step(1) [OF other(3) step(3)] show ?thesis by simp
  next
    case refused
    then show ?thesis by (simp add: discard_ok_other)
  next
    case no_stream
    then show ?thesis by (simp add: discard_ok_other)
  next
    case (sent y2)
    with step(1) [OF sent(5) step(3)] show ?thesis by simp
  qed
qed

text \<open>No event of the encoding loop hands out or gives back a resource, and none rescales
  or writes a packet.\<close>

lemma main_loop_events:
  assumes "main_loop env s d e = Some y" and "output_nb_streams s = 0"
  shows "list_all (\<lambda>x. acquired_by x = None \<and> released_by x = None \<and> \<not> rescales_or_writes x)
           (fst y)"
  using assms
proof (induction rule: main_loop_induct)
  case (step ml env s d e y)
  obtain rc p d1 where r: "av_read_frame env d = (rc, p, d1)"
    by (cases "av_read_frame env d") auto
  obtain rc_send e1 where sf: "avcodec_send_frame env e (Some (input_frame s)) = (rc_send, e1)"
    by (cases "avcodec_send_frame env e (Some (input_frame s))") auto
  obtain rc_recv q e2 where rp: "avcodec_receive_packet env e1 = (rc_recv, q, e2)"
    by (cases "avcodec_receive_packet env e1") auto
  from step(2) step(3) r sf rp show ?case
  proof (cases rule: main_loop_round)
    case eof
    then show ?thesis by simp
  next
    case (other y2)
    with step(1) [OF other(3) step(3)] show ?thesis by simp
  next
    case refused
    then show ?thesis by simp
  next
    case no_stream
    then show ?thesis by simp
  next
    case (sent y2)
    with step(1) [OF sent(5) step(3)] show ?thesis by simp
  qed
qed

text \<open>The encoding loop is left before the input ends only by the refused frame, which
  leaves a state of the encoder, or by the read of a stream that is not there.\<close>

lemma main_loop_outcome:
  assumes "main_loop env s d e = Some y" and "output_nb_streams s = 0"
  shows "\<forall>out. snd y = Inl out \<longrightarrow> out = Undefined"
  using assms
proof (induction rule: main_loop_induct)
  case (step ml env s d e y)
  obtain rc p d1 where r: "av_read_frame env d = (rc, p, d1)"
    by (cases "av_read_frame env d") auto
  obtain rc_send e1 where sf: "avcodec_send_frame env e (Some (input_frame s)) = (rc_send, e1)"
    by (cases "avcodec_send_frame env e (Some (input_frame s))") auto
  obtain rc_recv q e2 where rp: "avcodec_receive_packet env e1 = (rc_recv, q, e2)"
    by (cases "avcodec_receive_packet env e1") auto
  from step(2) step(3) r sf rp show ?case
  proof (cases rule: main_loop_round)
    case eof
    then show ?thesis by simp
  next
    case (other y2)
    with step(1) [OF other(3) step(3)] show ?thesis by simp
  next
    case refused
    then show ?thesis by simp
  next
    case no_stream
    then show ?thesis by simp
  next
    case (sent y2)
    with step(1) [OF sent(5) step(3)] show ?thesis by simp
  qed
qed

subsection \<open>Runs that end\<close>

text \<open>A run that ends either failed in setup, or read a stream that is not there in the
  encoding loop or in the flush, or went through the loop, the flush and the
  teardown.\<close>

lemma main_cases:
  assumes "main env argv0 args = Some (tr, out)"
  obtains (failed) "main_setup env argv0 args = (tr, Inl out)"
  | (no_stream_loop) t s tl where "main_setup env argv0 args = (t, Inr s)"
      and "main_loop env s (demuxer_init env) (encoder_init env) = Some (tl, Inl Undefined)"
      and "tr = t @ tl" and "out = Undefined"
  | (no_stream_flush) t s tl e where "main_setup env argv0 args = (t, Inr s)"
      and "main_loop env s (demuxer_init env) (encoder_init env) = Some (tl, Inr e)"
      and "tr = t @ tl @ [Avcodec_receive_packet]" and "out = Undefined"
  | (ran) t s tl e where "main_setup env argv0 args = (t, Inr s)"
      and "main_loop env s (demuxer_init env) (encoder_init env) = Some (tl, Inr e)"
      and "tr = t @ tl @ [Avcodec_receive_packet] @ main_teardown s" and "out = Return 0"
proof (cases "main_setup env argv0 args")
  case (Pair t r)
  show ?thesis
  proof (cases r)
    case (Inl out')
    with Pair assms show ?thesis by (intro failed) (simp add: main_def)
  next
    case (Inr s)
    with Pair have st: "main_setup env argv0 args = (t, Inr s)" by simp
    have zero: "output_nb_streams s = 0"
      using main_setup_Inr(1) [OF st] by simp
    from assms st obtain tl rl
      where loop: "main_loop env s (demuxer_init env) (encoder_init env) = Some (tl, rl)"
      by (auto simp: main_def split: bind_splits)
    show ?thesis
    proof (cases rl)
      case (Inl out')
      with main_loop_outcome [OF loop zero] have "out' = Undefined" by simp
      with assms st loop Inl show ?thesis
        by (intro no_stream_loop [of t s tl]) (simp_all add: main_def)
    next
      case (Inr e)
      obtain rc p e' where rp: "avcodec_receive_packet env e = (rc, p, e')"
        by (cases "avcodec_receive_packet env e") auto
      note once = receive_loop_once [OF zero rp]
      show ?thesis
      proof (cases "rc = 0")
        case True
        with assms st loop Inr once show ?thesis
          by (intro no_stream_flush [of t s tl e]) (simp_all add: main_def)
      next
        case False
        with assms st loop Inr once show ?thesis
          by (intro ran [of t s tl e]) (simp_all add: main_def)
      qed
    qed
  qed
qed

text \<open>No run that ends rescales or writes a packet.\<close>

lemma main_never_rescales_or_writes:
  assumes "main env argv0 args = Some (tr, out)"
  shows "\<not> list_ex rescales_or_writes tr"
  using assms
proof (cases rule: main_cases)
  case failed
  with main_setup_calls [of env argv0 args] show ?thesis
    by (auto simp: list_all_iff list_ex_iff setup_call_not_rescale_write)
next
  case (no_stream_loop t s tl)
  have "output_nb_streams s = 0"
    using main_setup_Inr(1) [OF no_stream_loop(1)] by simp
  with main_loop_events [OF no_stream_loop(2)] main_setup_calls [of env argv0 args]
    no_stream_loop(1,3)
  show ?thesis
    by (auto simp: list_all_iff list_ex_iff setup_call_not_rescale_write)
next
  case (no_stream_flush t s tl e)
  have "output_nb_streams s = 0"
    using main_setup_Inr(1) [OF no_stream_flush(1)] by simp
  with main_loop_events [OF no_stream_flush(2)] main_setup_calls [of env argv0 args]
    no_stream_flush(1,3)
  show ?thesis
    by (auto simp: list_all_iff list_ex_iff setup_call_not_rescale_write)
next
  case (ran t s tl e)
  have "output_nb_streams s = 0"
    using main_setup_Inr(1) [OF ran(1)] by simp
  with main_loop_events [OF ran(2)] main_setup_calls [of env argv0 args] ran(1,3)
  show ?thesis
    by (auto simp: list_all_iff list_ex_iff setup_call_not_rescale_write main_teardown_def)
qed

text \<open>
  The program returns with every library whose demuxer cannot deliver packets for ever:
  \<open>n\<close> bounds the packets the source still has.
\<close>

lemma main_loop_returns:
  fixes n :: "'d \<Rightarrow> nat"
  assumes read: "\<forall>d rc p d'. av_read_frame env d = (rc, p, d') \<and> 0 \<le> rc \<longrightarrow> n d' < n d"
    and zero: "output_nb_streams s = 0"
  shows "\<exists>y. main_loop env s d e = Some y"
proof (induction "n d" arbitrary: d e rule: less_induct)
  case less
  obtain rc p d1 where r: "av_read_frame env d = (rc, p, d1)"
    by (cases "av_read_frame env d") auto
  obtain rc_send e1 where sf: "avcodec_send_frame env e (Some (input_frame s)) = (rc_send, e1)"
    by (cases "avcodec_send_frame env e (Some (input_frame s))") auto
  obtain rc_recv q e2 where rp: "avcodec_receive_packet env e1 = (rc_recv, q, e2)"
    by (cases "avcodec_receive_packet env e1") auto
  note once = receive_loop_once [OF zero rp]
  show ?case
  proof (cases "0 \<le> rc")
    case True
    with r read have "n d1 < n d" by simp
    from less [OF this] obtain y2 y3 where "main_loop env s d1 e = Some y2"
      and "main_loop env s d1 e2 = Some y3"
      by blast
    with r sf once True show ?thesis
      by (subst main_loop.simps) (auto split: prod.splits)
  next
    case False
    with r show ?thesis
      by (subst main_loop.simps) simp
  qed
qed

lemma main_returns:
  fixes n :: "'d \<Rightarrow> nat"
  assumes read: "\<forall>d rc p d'. av_read_frame env d = (rc, p, d') \<and> 0 \<le> rc \<longrightarrow> n d' < n d"
  shows "\<exists>tr out. main env argv0 args = Some (tr, out)"
proof (cases "main_setup env argv0 args")
  case (Pair t r)
  show ?thesis
  proof (cases r)
    case (Inl out)
    with Pair show ?thesis by (simp add: main_def)
  next
    case (Inr s)
    with Pair have zero: "output_nb_streams s = 0"
      using main_setup_Inr(1) [of env argv0 args t s] by simp
    obtain tl rl where
      loop: "main_loop env s (demuxer_init env) (encoder_init env) = Some (tl, rl)"
      using main_loop_returns [OF read zero] by fastforce
    show ?thesis
    proof (cases rl)
      case (Inl out)
      with Pair Inr loop show ?thesis by (simp add: main_def)
    next
      case e: (Inr e)
      obtain rc p e' where rp: "avcodec_receive_packet env e = (rc, p, e')"
        by (cases "avcodec_receive_packet env e") auto
      from Pair Inr loop e receive_loop_once [OF zero rp] show ?thesis
        by (simp add: main_def)
    qed
  qed
qed

text \<open>The sample library is such a library, whatever the command line.\<close>

lemma sample_lib_returns: "\<exists>tr out. main sample_lib argv0 args = Some (tr, out)"
proof (rule main_returns [where n = "\<lambda>d. length sample_packets - d"])
  show "\<forall>d rc p d'. av_read_frame sample_lib d = (rc, p, d') \<and> 0 \<le> rc \<longrightarrow>
          length sample_packets - d' < length sample_packets - d"
    by (auto simp: sample_lib_def sample_read_def split: if_splits)
qed

section \<open>The claims\<close>

text \<open>
  C1. For every packet of the selected video stream, the encoding loop first decodes the
  packet into frames, scales each frame, and only then submits the scaled frame to the
  encoder; no frame that the decoder did not produce is submitted. The program does not
  do this. On the sample library, setup leaves \<open>sample_session\<close> and the loop does
  what is listed below: each read of a video packet (stream 1) is followed at once by
  the submission of \<^verbatim>\<open>input_frame\<close> as \<open>av_frame_alloc\<close> returned it, without a picture
  buffer. The packet is handed to no decoder and no frame is handed to the scaler; the
  program has no such call.
\<close>

theorem C1_undecoded_frame_submitted:
  "snd (main_setup sample_lib ''prog'' sample_args) = Inr sample_session \<and>
   frame_data av_frame_alloc_result = None \<and>
   main_loop sample_lib sample_session (demuxer_init sample_lib) (encoder_init sample_lib) =
     Some
      ([Av_read_frame 0 \<lparr>stream_index = 0, pts = 0, dts = 0, payload = [1]\<rparr>,
        Av_packet_unref,
        Av_read_frame 0 \<lparr>stream_index = 1, pts = 0, dts = 0, payload = [2]\<rparr>,
        Avcodec_send_frame (Some av_frame_alloc_result),
        Avcodec_receive_packet,
        Av_packet_unref,
        Av_read_frame 0 \<lparr>stream_index = 1, pts = 3600, dts = 3600, payload = [3]\<rparr>,
        Avcodec_send_frame (Some av_frame_alloc_result),
        Avcodec_receive_packet,
        Av_packet_unref,
        Av_read_frame (- 541478725) \<lparr>stream_index = 0, pts = 0, dts = 0, payload = []\<rparr>],
       Inr (2, False))"
proof -
  have "demuxer_init sample_lib = 0" and "encoder_init sample_lib = (0, False)"
    by (simp_all add: sample_lib_def)
  then show ?thesis
    using loop_sample
    by (simp add: setup_sample sample_loop_trace_def no_packet_def av_frame_alloc_result_def)
qed

text \<open>
  C2. The exit code is 0 only on a fully successful run, and nonzero whenever a setup,
  decode, encode or input/output error occurs; in particular a run in which an encode
  submission fails in the loop exits with a nonzero status. The program does not do
  this. With an encoder that refuses the frame, the program reports the error on
  standard error, leaves the loop, flushes, tears down, prints the confirmation and
  returns 0.
\<close>

theorem C2_returns_0_after_refused_frame:
  "main send_fails_lib ''prog'' sample_args =
     Some
      (sample_setup_trace @
       [Av_read_frame 0 \<lparr>stream_index = 0, pts = 0, dts = 0, payload = [1]\<rparr>,
        Av_packet_unref,
        Av_read_frame 0 \<lparr>stream_index = 1, pts = 0, dts = 0, payload = [2]\<rparr>,
        Avcodec_send_frame (Some av_frame_alloc_result),
        Stderr ''Error sending a frame for encoding'',
        Avcodec_receive_packet,
        Av_write_trailer, Avio_closep, Av_frame_free, Sws_freeContext, Av_frame_free,
        Av_packet_free, Avcodec_free_context, Avcodec_parameters_destroy,
        Avformat_close_input,
        Stdout ''Conversion completed successfully!''],
       Return 0)"
  by (simp add: main_def main_setup_def nb_streams_def main_loop.simps receive_loop.simps
      sample_defs stoi_defs parameters_to_context_def main_teardown_def Let_def
      sample_setup_trace_def stream_exists_def)

text \<open>
  C3. After the source is exhausted, the flush first signals the end of the stream to the
  encoder and then drains the packets that are ready until the encoder reports no more
  output; after the flush a further drain returns no packet. The program does not do
  this: it never signals the end of the stream. On the sample library the encoder holds
  two frames when the loop ends; the flush is a single request, answered with
  "try again", so nothing is written and the frames stay in the encoder; had the end of
  the stream been signalled, the next request would have handed out a packet. No event
  of the run is a submission of the null frame.
\<close>

theorem C3_flush_without_end_of_stream:
  "main sample_lib ''prog'' sample_args = Some (sample_trace, Return 0) \<and>
   Avcodec_send_frame None \<notin> set sample_trace \<and>
   main_loop sample_lib sample_session 0 (0, False) =
     Some (sample_loop_trace, Inr (2, False)) \<and>
   receive_loop sample_lib sample_session (2, False) =
     Some ([Avcodec_receive_packet], Inr (2, False)) \<and>
   avcodec_receive_packet sample_lib (2, False) = (- 11, no_packet, (2, False)) \<and>
   avcodec_receive_packet sample_lib (snd (avcodec_send_frame sample_lib (2, False) None)) =
     (0, \<lparr>stream_index = 0, pts = 3600, dts = 3600, payload = [7]\<rparr>, (1, True))"
proof -
  have "Avcodec_send_frame None \<notin> set sample_trace"
    by (simp add: sample_trace_def sample_setup_trace_def sample_loop_trace_def
        main_teardown_def)
  moreover have "avcodec_receive_packet sample_lib (2, False) = (- 11, no_packet, (2, False))"
    by (simp add: sample_lib_def sample_receive_def)
  moreover have
    "avcodec_receive_packet sample_lib (snd (avcodec_send_frame sample_lib (2, False) None)) =
       (0, \<lparr>stream_index = 0, pts = 3600, dts = 3600, payload = [7]\<rparr>, (1, True))"
    by (simp add: sample_lib_def sample_receive_def sample_send_def)
  ultimately show ?thesis
    using main_sample loop_sample flush_sample by simp
qed

text \<open>
  C4. On every exit path of a run (success, setup failure at any stage, failure in the
  loop) the resources acquired so far are released through the same teardown as on the
  success path before the process exits. As stated this fails: when the header cannot
  be written, the program has been handed the input, the encoder context, the packet,
  both frames, the scaler and the output file, and returns \<open>-1\<close> without giving back any
  of them.
\<close>

theorem C4_no_teardown_counterexample:
  "main header_fails_lib ''prog'' sample_args =
     Some (sample_setup_trace @ [Stderr ''Failed to write output header''], Return (- 1)) \<and>
   acquired (sample_setup_trace @ [Stderr ''Failed to write output header'']) =
     [Input_handle, Encoder_context, Packet, Frame, Scaler, Frame, Output_handle] \<and>
   released (sample_setup_trace @ [Stderr ''Failed to write output header'']) = []"
  by (simp add: main_def main_setup_def nb_streams_def sample_defs stoi_defs
      parameters_to_context_def Let_def sample_setup_trace_def acquired_def released_def)

text \<open>
  C4, amended. A run that ends after a successful setup by \<^verbatim>\<open>main\<close> returning, be it
  that the loop ended with the input or that it was left after a refused frame, has
  been handed the input, the encoder context, the packet, the two frames, the scaler
  and the output, and has given back each of them once, and the codec parameters, in
  the order of lines 166 to 181. A run that ends in setup ends as setup ended and has
  given back nothing. (A run cut short by the read of a stream that is not there is
  left out: nothing is said of it.)
\<close>

theorem C4_released_after_setup_only:
  assumes "main env argv0 args = Some (tr, out)"
  shows "(\<exists>s. snd (main_setup env argv0 args) = Inr s \<and>
            (out = Undefined \<or>
             (acquired tr =
                [Input_handle, Encoder_context, Packet, Frame, Scaler, Frame, Output_handle] \<and>
              released tr =
                [Output_handle, Frame, Scaler, Frame, Packet, Encoder_context,
                 Codec_parameters, Input_handle]))) \<or>
         (snd (main_setup env argv0 args) = Inl out \<and> released tr = [])"
  using assms
proof (cases rule: main_cases)
  case failed
  have "list_all (\<lambda>x. released_by x = None) tr"
    using main_setup_calls [of env argv0 args] failed
    by (auto simp: list_all_iff setup_call_released)
  then have "released tr = []"
    by (rule released_none)
  with failed show ?thesis by simp
next
  case (no_stream_loop t s tl)
  then show ?thesis by simp
next
  case (no_stream_flush t s tl e)
  then show ?thesis by simp
next
  case (ran t s tl e)
  have zero: "output_nb_streams s = 0"
    using main_setup_Inr(1) [OF ran(1)] by simp
  have "list_all (\<lambda>x. released_by x = None) t"
    using main_setup_calls [of env argv0 args] ran(1)
    by (auto simp: list_all_iff setup_call_released)
  then have t: "released t = []"
    by (rule released_none)
  have tl: "acquired tl = []" "released tl = []"
    using main_loop_events [OF ran(2)] zero
    by (auto simp: list_all_iff intro!: acquired_none released_none)
  have "acquired tr =
      [Input_handle, Encoder_context, Packet, Frame, Scaler, Frame, Output_handle]"
    unfolding ran(3) using main_setup_Inr(4) [OF ran(1)] tl
    by (simp add: acquired_append) (simp add: acquired_def main_teardown_def)
  moreover have "released tr =
      [Output_handle, Frame, Scaler, Frame, Packet, Encoder_context, Codec_parameters,
       Input_handle]"
    unfolding ran(3) using t tl
    by (simp add: released_append) (simp add: released_def main_teardown_def)
  ultimately show ?thesis
    using ran(1) by simp
qed

theorem C4_released_after_setup_only_witness:
  "main sample_lib ''prog'' sample_args = Some (sample_trace, Return 0) \<and>
   snd (main_setup sample_lib ''prog'' sample_args) = Inr sample_session \<and>
   acquired sample_trace =
     [Input_handle, Encoder_context, Packet, Frame, Scaler, Frame, Output_handle] \<and>
   released sample_trace =
     [Output_handle, Frame, Scaler, Frame, Packet, Encoder_context, Codec_parameters,
      Input_handle]"
  using C4_released_after_setup_only [OF main_sample] main_sample
  by (simp add: setup_sample)

text \<open>
  C5. For every run whose third argument parses as the integer \<open>k\<close>, the bit rate with
  which the encoder session is opened is \<open>k \<times> 1000\<close>, whatever the bit rate of the
  source stream. As stated this fails: the product is computed in 32 bits, and for
  \<open>k = 2147484\<close> the session is opened with \<open>- 2147483296\<close>.
\<close>

theorem C5_bitrate_overflow_counterexample:
  "stoi ''2147484'' = Inr 2147484 \<and>
   Avcodec_open2
     \<lparr>ctx_codec_id = 27, ctx_width = 640, ctx_height = 360, ctx_bit_rate = - 2147483296\<rparr> 27
     \<in> set (fst (main_setup sample_lib ''prog'' [''in.mp4'', ''out.3gp'', ''2147484''])) \<and>
   (- 2147483296 :: int) \<noteq> 2147484 * 1000"
  by (simp add: main_setup_def nb_streams_def sample_defs stoi_defs parameters_to_context_def Let_def)

text \<open>
  C5, amended. For every run whose third argument parses as an integer \<open>k\<close> with
  \<open>- 2147483 \<le> k \<le> 2147483\<close>, every opening of the encoder session is done with the
  bit rate \<open>k \<times> 1000\<close>, whatever the library answers and whatever the bit rate of
  the source stream. (The session is opened during setup, at line 72.)
\<close>

theorem C5_bitrate_times_1000:
  assumes "stoi (args ! 2) = Inr k"
    and "- 2147483 \<le> sint k" and "sint k \<le> 2147483"
    and "Avcodec_open2 c codec \<in> set (fst (main_setup env argv0 args))"
  shows "ctx_bit_rate c = sint k * 1000"
  using assms(1,4) sint_times_1000 [OF assms(2,3)]
  by (auto simp: main_setup_def nb_streams_def Let_def split: if_splits option.splits)

theorem C5_bitrate_times_1000_witness:
  "stoi (sample_args ! 2) = Inr 500 \<and>
   - 2147483 \<le> sint (500 :: 32 word) \<and> sint (500 :: 32 word) \<le> 2147483 \<and>
   Avcodec_open2
     \<lparr>ctx_codec_id = 27, ctx_width = 640, ctx_height = 360, ctx_bit_rate = 500000\<rparr> 27
     \<in> set (fst (main_setup sample_lib ''prog'' sample_args)) \<and>
   ctx_bit_rate
     \<lparr>ctx_codec_id = 27, ctx_width = 640, ctx_height = 360, ctx_bit_rate = 500000\<rparr>
     = sint (500 :: 32 word) * 1000"
proof -
  have a: "stoi (sample_args ! 2) = Inr 500"
    by (simp add: sample_args_def stoi_500)
  have b: "- 2147483 \<le> sint (500 :: 32 word)" and c: "sint (500 :: 32 word) \<le> 2147483"
    by simp_all
  have d: "Avcodec_open2
     \<lparr>ctx_codec_id = 27, ctx_width = 640, ctx_height = 360, ctx_bit_rate = 500000\<rparr> 27
     \<in> set (fst (main_setup sample_lib ''prog'' sample_args))"
    by (simp add: setup_sample sample_setup_trace_def)
  show ?thesis
    using a b c d C5_bitrate_times_1000 [OF a b c d] by simp
qed

text \<open>
  C6. Whatever the input, no stream is added to the output context between its
  allocation and the lookup of the output video stream, so the lookup runs over a
  context of zero streams: every lookup searches a context of zero streams, the event
  right before it is the allocation of that context, and no event of the setup adds a
  stream.
\<close>

theorem C6_lookup_over_zero_streams:
  "follows (lookup_ok (args ! 1)) None (fst (main_setup env argv0 args)) \<and>
   Avformat_new_stream \<notin> set (fst (main_setup env argv0 args))"
  by (simp add: main_setup_def nb_streams_def Let_def lookup_ok_lookup lookup_ok_other
      split: sum.splits option.splits)

theorem C6_lookup_over_zero_streams_witness:
  "follows (lookup_ok ''out.3gp'') None (fst (main_setup sample_lib ''prog'' sample_args)) \<and>
   Avformat_new_stream \<notin> set (fst (main_setup sample_lib ''prog'' sample_args)) \<and>
   Av_find_best_stream 0 \<in> set (fst (main_setup sample_lib ''prog'' sample_args))"
proof -
  have "sample_args ! 1 = ''out.3gp''"
    by (simp add: sample_args_def)
  then show ?thesis
    using C6_lookup_over_zero_streams [of sample_args sample_lib "''prog''"]
    by (simp add: setup_sample sample_setup_trace_def)
qed

text \<open>
  C7. Throughout the encoding loop a packet whose stream index differs from the index of
  the selected video stream is dropped and causes no decode, encode or mux operation,
  and one video stream index is selected for the whole run. In every run that ends,
  with \<open>vi\<close> the position of the first video stream of the source (the one value that
  line 38 assigns): right after a read that returned a packet of a stream other than
  \<open>vi\<close> the packet is released, and right after that comes the next read.
\<close>

theorem C7_other_streams_discarded:
  assumes "main env argv0 args = Some (tr, out)"
  shows "follows (discard_ok (find_video_stream 0 (streams env))) None tr"
  using assms
proof (cases rule: main_cases)
  case failed
  then have "list_all setup_call tr"
    using main_setup_calls [of env argv0 args] by simp
  then show ?thesis
    by (rule follows_setup_calls)
      (simp_all add: discard_ok_other setup_call_not_read setup_call_not_unref)
next
  case (no_stream_loop t s tl)
  let ?vi = "find_video_stream 0 (streams env)"
  have s: "video_stream_index s = ?vi" "output_nb_streams s = 0"
    using main_setup_Inr(1) [OF no_stream_loop(1)] by simp_all
  have "list_all setup_call t"
    using main_setup_calls [of env argv0 args] no_stream_loop(1) by simp
  then have 1: "follows (discard_ok ?vi) None t"
    by (rule follows_setup_calls)
      (simp_all add: discard_ok_other setup_call_not_read setup_call_not_unref)
  have t: "t \<noteq> []" "last t = Avformat_write_header"
    using main_setup_Inr(2,3) [OF no_stream_loop(1)] by simp_all
  have 2: "follows (discard_ok ?vi) (Some Avformat_write_header) tl"
    using main_loop_discard_ok [OF no_stream_loop(2) s(2)] s(1)
    by (auto simp: discard_ok_other)
  from 1 2 t show ?thesis
    unfolding no_stream_loop(3) by (simp add: follows_append)
next
  case (no_stream_flush t s tl e)
  let ?vi = "find_video_stream 0 (streams env)"
  have s: "video_stream_index s = ?vi" "output_nb_streams s = 0"
    using main_setup_Inr(1) [OF no_stream_flush(1)] by simp_all
  have "list_all setup_call t"
    using main_setup_calls [of env argv0 args] no_stream_flush(1) by simp
  then have 1: "follows (discard_ok ?vi) None t"
    by (rule follows_setup_calls)
      (simp_all add: discard_ok_other setup_call_not_read setup_call_not_unref)
  have t: "t \<noteq> []" "last t = Avformat_write_header"
    using main_setup_Inr(2,3) [OF no_stream_flush(1)] by simp_all
  have 2: "follows (discard_ok ?vi) (Some Avformat_write_header) tl"
    using main_loop_discard_ok [OF no_stream_flush(2) s(2)] s(1)
    by (auto simp: discard_ok_other)
  have l: "tl \<noteq> []" "\<And>x. discard_ok ?vi (Some (last tl)) x"
    using main_loop_last [OF no_stream_flush(2) s(2), of ?vi] by simp_all
  from 1 2 t l show ?thesis
    unfolding no_stream_flush(3) by (simp add: follows_append)
next
  case (ran t s tl e)
  let ?vi = "find_video_stream 0 (streams env)"
  have s: "video_stream_index s = ?vi" "output_nb_streams s = 0"
    using main_setup_Inr(1) [OF ran(1)] by simp_all
  have "list_all setup_call t"
    using main_setup_calls [of env argv0 args] ran(1) by simp
  then have 1: "follows (discard_ok ?vi) None t"
    by (rule follows_setup_calls)
      (simp_all add: discard_ok_other setup_call_not_read setup_call_not_unref)
  have t: "t \<noteq> []" "last t = Avformat_write_header"
    using main_setup_Inr(2,3) [OF ran(1)] by simp_all
  have 2: "follows (discard_ok ?vi) (Some Avformat_write_header) tl"
    using main_loop_discard_ok [OF ran(2) s(2)] s(1)
    by (auto simp: discard_ok_other)
  have l: "tl \<noteq> []" "\<And>x. discard_ok ?vi (Some (last tl)) x"
    using main_loop_last [OF ran(2) s(2), of ?vi] by simp_all
  have 4: "follows (discard_ok ?vi) (Some Avcodec_receive_packet) (main_teardown s)"
    by (simp add: main_teardown_def discard_ok_other)
  from 1 2 4 t l show ?thesis
    unfolding ran(3) by (simp add: follows_append)
qed

theorem C7_other_streams_discarded_witness:
  "main sample_lib ''prog'' sample_args = Some (sample_trace, Return 0) \<and>
   find_video_stream 0 (streams sample_lib) = 1 \<and>
   follows (discard_ok 1) None sample_trace \<and>
   Av_read_frame 0 \<lparr>stream_index = 0, pts = 0, dts = 0, payload = [1]\<rparr> \<in> set sample_trace"
proof -
  have "find_video_stream 0 (streams sample_lib) = 1"
    by (simp add: sample_lib_def sample_streams_def)
  moreover have
    "Av_read_frame 0 \<lparr>stream_index = 0, pts = 0, dts = 0, payload = [1]\<rparr> \<in> set sample_trace"
    by (simp add: sample_trace_def sample_loop_trace_def)
  ultimately show ?thesis
    using C7_other_streams_discarded [OF main_sample] main_sample by simp
qed

text \<open>
  C8. Every packet handed to the muxer, in the encoding loop and in the flush, has had
  its time stamps rescaled from the input stream to the output stream before the write.
  The program does not do this: there is no output stream. Lines 148 and 158 take the
  stream at position \<^verbatim>\<open>video_stream_id\<close> of the output context, and that context never
  has a stream. With an encoder that hands out a packet at the second frame, setup
  leaves \<open>sample_session\<close>, whose \<^verbatim>\<open>video_stream_id\<close> is the answer \<open>- 1381258232\<close> of
  the lookup of line 85 and whose output context has zero streams; at the packet the
  run ends in the read of a stream that is not there, and no packet has been rescaled
  or written.
\<close>

theorem C8_no_output_stream_to_rescale_to:
  "snd (main_setup one_back_lib ''prog'' sample_args) = Inr sample_session \<and>
   video_stream_id sample_session = - 1381258232 \<and>
   output_nb_streams sample_session = 0 \<and>
   \<not> stream_exists (video_stream_id sample_session) (output_nb_streams sample_session) \<and>
   avcodec_receive_packet one_back_lib (2, False) =
     (0, \<lparr>stream_index = 0, pts = 3600, dts = 3600, payload = [7]\<rparr>, (1, False)) \<and>
   main one_back_lib ''prog'' sample_args =
     Some
      (sample_setup_trace @
       [Av_read_frame 0 \<lparr>stream_index = 0, pts = 0, dts = 0, payload = [1]\<rparr>,
        Av_packet_unref,
        Av_read_frame 0 \<lparr>stream_index = 1, pts = 0, dts = 0, payload = [2]\<rparr>,
        Avcodec_send_frame (Some av_frame_alloc_result),
        Avcodec_receive_packet,
        Av_packet_unref,
        Av_read_frame 0 \<lparr>stream_index = 1, pts = 3600, dts = 3600, payload = [3]\<rparr>,
        Avcodec_send_frame (Some av_frame_alloc_result),
        Avcodec_receive_packet],
       Undefined)"
  by (simp add: main_def main_setup_def nb_streams_def main_loop.simps receive_loop.simps
      sample_defs stoi_defs parameters_to_context_def Let_def sample_setup_trace_def
      stream_exists_def)

text \<open>
  C9. With a source that has no video stream, the program fails during setup with a
  diagnostic and a nonzero exit status; no output file is created, no header is written
  and nothing is finalised. For every command line of three arguments whose third one
  parses, and every library whose source has no video stream: the run ends, it returns
  \<open>-1\<close>, its last event is a line on standard error, and no event before it touches the
  output.
\<close>

theorem C9_no_video_stream:
  assumes "length args = 3" and "stoi (args ! 2) = Inr k"
    and "filter (\<lambda>p. codec_type p = AVMEDIA_TYPE_VIDEO) (streams env) = []"
  shows "\<exists>tr msg. main env argv0 args = Some (tr @ [Stderr msg], Return (- 1)) \<and>
           \<not> list_ex touches_output tr"
  using assms
  by (auto simp: main_def main_setup_def nb_streams_def Let_def find_video_stream_none)

theorem C9_no_video_stream_witness:
  "length sample_args = 3 \<and> stoi (sample_args ! 2) = Inr 500 \<and>
   filter (\<lambda>p. codec_type p = AVMEDIA_TYPE_VIDEO) (streams audio_only_lib) = [] \<and>
   main audio_only_lib ''prog'' sample_args =
     Some ([Av_register_all, Avformat_open_input ''in.mp4'', Avformat_find_stream_info,
            Stderr ''Failed to find video stream''], Return (- 1))"
proof -
  have a: "length sample_args = 3" and b: "stoi (sample_args ! 2) = Inr 500"
    by (simp_all add: sample_args_def stoi_500)
  have c: "filter (\<lambda>p. codec_type p = AVMEDIA_TYPE_VIDEO) (streams audio_only_lib) = []"
    by (simp add: sample_defs)
  have "main audio_only_lib ''prog'' sample_args =
     Some ([Av_register_all, Avformat_open_input ''in.mp4'', Avformat_find_stream_info,
            Stderr ''Failed to find video stream''], Return (- 1))"
    using C9_no_video_stream [OF a b c, of "''prog''"]
    by (simp add: main_def main_setup_def nb_streams_def Let_def sample_defs stoi_500)
  with a b c show ?thesis by simp
qed

text \<open>
  C10. There is a command line of three arguments whose third argument is not an
  integer for which the parse of the bit rate throws, nothing catches the exception,
  and the process ends having printed neither the usage line nor a diagnostic. With
  \<^verbatim>\<open>fast\<close> as the third argument \<open>stoi\<close> throws \<^verbatim>\<open>std::invalid_argument\<close>, and whatever
  the library, the run is the exception leaving \<^verbatim>\<open>main\<close> with no event before it.
\<close>

theorem C10_uncaught_invalid_argument:
  "\<exists>args. length args = 3 \<and> stoi (args ! 2) = Inl Invalid_argument \<and>
     (\<forall>(env :: ('d, 'e) env) argv0.
        main env argv0 args = Some ([], Terminate Invalid_argument))"
  by (rule exI [of _ "[''in.mp4'', ''out.3gp'', ''fast'']"])
    (simp add: main_def main_setup_def nb_streams_def stoi_defs)

end
